theory Spec2Isabelle
  imports Complex_Main
begin

section \<open>Data model\<close>

text \<open>
  The optimizer (\<^verbatim>\<open>Simple_Stop_Loss_Optimizer.py\<close>) works on four columns of a
  pandas DataFrame: \<^verbatim>\<open>MAE\<close>, \<^verbatim>\<open>Shares\<close>, \<^verbatim>\<open>Price\<close> and \<^verbatim>\<open>Profit\<close>.

  Numbers: the program computes with float64. Here a float is a \<^typ>\<open>real\<close>: the
  comparisons, the branching, the counting and the index arithmetic of the program are
  modelled exactly, the rounding of each floating-point operation, the infinities and
  NaN as a value of arithmetic are not. A cell that \<^verbatim>\<open>pd.to_numeric(..., errors='coerce')\<close>
  turns into NaN is \<open>None\<close>, every other cell is \<open>Some\<close> of its number, so a series
  is taken after that library call.

  A DataFrame is the list of its columns, each a name with its cells; the rows are numbered
  by position (the index \<^verbatim>\<open>read_csv\<close> produces), and all columns have the same length.
\<close>

type_synonym series = "real option list"

type_synonym dataframe = "(string \<times> series) list"

text \<open>The values the loop of \<^verbatim>\<open>analyze_stop_loss\<close> reads at one valid index.\<close>

record trade =
  actual_mae :: real
  shares :: real
  entry_price :: real
  actual_profit :: real

text \<open>The dictionary appended to \<^verbatim>\<open>stop_loss_results\<close> for one percentile.\<close>

record threshold_result =
  mae_threshold :: real
  percentile :: real
  total_profit :: real
  delta :: real
  stopped_count :: nat
  win_rate :: real

text \<open>
  The exceptions the analysis can raise: the \<^verbatim>\<open>ValueError\<close> of the column check (with the
  missing and the available columns), the \<^verbatim>\<open>IndexError\<close> of \<^verbatim>\<open>iloc\<close> out of bounds and
  the \<^verbatim>\<open>ValueError\<close> of \<^verbatim>\<open>max\<close> on an empty list.
\<close>

datatype py_error =
  MissingColumns "string list" "string list"
  | IndexError
  | MaxOfEmpty

text \<open>
  The one place where a divisor can be zero is the percentage of the summary,
  \<^verbatim>\<open>best_result['delta']/abs(baseline_total_profit)*100\<close>. Its dividend is a numpy
  float64 (the running total starts as \<^verbatim>\<open>0.0\<close> and becomes a numpy scalar with the first
  value added from a Series, and at least one value is added), so the division is numpy's:
  a zero divisor raises nothing and gives an infinity or NaN. The quotient therefore has
  its own type.
\<close>

datatype np_float = Finite real | PosInf | NegInf | NaN

text \<open>What the analysis has computed (and printed) when it returns normally.\<close>

record report =
  baseline_total_profit :: real
  baseline_win_rate :: real
  baseline_avg_profit :: real
  baseline_trade_count :: nat
  stop_loss_results :: "threshold_result list"
  best_result :: threshold_result
  improvement_pct :: np_float

text \<open>
  \<open>NoValidData\<close> is the early \<^verbatim>\<open>return\<close> after the message
  \<^verbatim>\<open>ERROR: No valid data found\<close>; \<open>Report\<close> is the end of the function.
\<close>

datatype outcome = NoValidData | Report report

section \<open>Valid rows\<close>

definition required_cols :: "string list" where
  "required_cols = [''MAE'', ''Shares'', ''Price'', ''Profit'']"

definition missing_cols :: "dataframe \<Rightarrow> string list" where
  "missing_cols df = [col \<leftarrow> required_cols. col \<notin> set (map fst df)]"

definition column :: "dataframe \<Rightarrow> string \<Rightarrow> series" where
  "column df name = (case map_of df name of Some s \<Rightarrow> s | None \<Rightarrow> [])"

text \<open>
  \<^verbatim>\<open>valid_mask\<close> is the conjunction of the four \<^verbatim>\<open>notna()\<close> masks; a row passes when
  all four of its cells are numbers.
\<close>

fun row_trade :: "real option \<times> real option \<times> real option \<times> real option \<Rightarrow> trade option" where
  "row_trade (Some m, Some s, Some p, Some pr) =
     Some \<lparr>actual_mae = m, shares = s, entry_price = p, actual_profit = pr\<rparr>"
| "row_trade _ = None"

text \<open>
  The rows at \<^verbatim>\<open>valid_indices\<close>, in index order, each with the four values the program
  looks up by \<^verbatim>\<open>.loc[idx]\<close>.
\<close>

definition valid_trades :: "dataframe \<Rightarrow> trade list" where
  "valid_trades df =
     (let mae_series = column df ''MAE'';
          shares_series = column df ''Shares'';
          price_series = column df ''Price'';
          profit_series = column df ''Profit''
      in List.map_filter row_trade
           (zip mae_series (zip shares_series (zip price_series profit_series))))"

section \<open>Baseline metrics\<close>

definition profit_valid :: "trade list \<Rightarrow> real list" where
  "profit_valid ts = map actual_profit ts"

definition mae_valid :: "trade list \<Rightarrow> real list" where
  "mae_valid ts = map actual_mae ts"

text \<open>\<^verbatim>\<open>Series.mean()\<close>: the sum over the count.\<close>

definition mean :: "real list \<Rightarrow> real" where
  "mean xs = sum_list xs / real (length xs)"

definition calc_baseline_total_profit :: "trade list \<Rightarrow> real" where
  "calc_baseline_total_profit ts = sum_list (profit_valid ts)"

text \<open>\<^verbatim>\<open>float((profit_valid > 0).mean()) * 100\<close>: the mean of a boolean series counts True as 1.\<close>

definition calc_baseline_win_rate :: "trade list \<Rightarrow> real" where
  "calc_baseline_win_rate ts =
     mean (map (\<lambda>x. if 0 < x then 1 else 0) (profit_valid ts)) * 100"

definition calc_baseline_avg_profit :: "trade list \<Rightarrow> real" where
  "calc_baseline_avg_profit ts = mean (profit_valid ts)"

section \<open>Threshold at a percentile\<close>

text \<open>Python's \<^verbatim>\<open>int\<close> of a float truncates towards zero.\<close>

definition py_int :: "real \<Rightarrow> int" where
  "py_int x = (if 0 \<le> x then \<lfloor>x\<rfloor> else \<lceil>x\<rceil>)"

text \<open>\<^verbatim>\<open>max(0, int(len(mae_sorted) * (pct / 100.0)) - 1)\<close>\<close>

definition threshold_idx :: "nat \<Rightarrow> real \<Rightarrow> int" where
  "threshold_idx n pct = max 0 (py_int (real n * (pct / 100)) - 1)"

text \<open>
  \<^verbatim>\<open>Series.iloc[i]\<close>: a negative position counts from the end, a position outside the
  series raises \<^verbatim>\<open>IndexError\<close>.
\<close>

definition iloc :: "real list \<Rightarrow> int \<Rightarrow> py_error + real" where
  "iloc xs i =
     (let n = int (length xs); j = (if i < 0 then i + n else i)
      in if j < 0 \<or> n \<le> j then Inl IndexError else Inr (xs ! nat j))"

text \<open>The two lines that resolve \<^verbatim>\<open>mae_threshold\<close> from \<^verbatim>\<open>mae_sorted\<close> and \<^verbatim>\<open>pct\<close>.\<close>

definition resolve_mae_threshold :: "real list \<Rightarrow> real \<Rightarrow> py_error + real" where
  "resolve_mae_threshold mae_sorted pct =
     iloc mae_sorted (threshold_idx (length mae_sorted) pct)"

section \<open>Replay of the trades under one threshold\<close>

text \<open>
  One pass of the inner loop; the state is
  \<open>(simulated_profit_total, stopped_count, win_count)\<close>.
\<close>

fun replay_step :: "real \<Rightarrow> real \<times> nat \<times> nat \<Rightarrow> trade \<Rightarrow> real \<times> nat \<times> nat" where
  "replay_step thr (simulated_profit_total, stopped, wins) t =
     (if actual_mae t < thr then
        (let simulated_loss = shares t * entry_price t * thr / 100
         in (simulated_profit_total + simulated_loss, stopped + 1,
             if 0 < simulated_loss then wins + 1 else wins))
      else
        (simulated_profit_total + actual_profit t, stopped,
         if 0 < actual_profit t then wins + 1 else wins))"

definition replay :: "real \<Rightarrow> trade list \<Rightarrow> real \<times> nat \<times> nat" where
  "replay thr ts = foldl (replay_step thr) (0, 0, 0) ts"

text \<open>The body of the loop over \<^verbatim>\<open>threshold_pcts\<close> for one percentile.\<close>

definition simulate_pct :: "trade list \<Rightarrow> real \<Rightarrow> py_error + threshold_result" where
  "simulate_pct ts pct =
     (case resolve_mae_threshold (sort (mae_valid ts)) pct of
        Inl e \<Rightarrow> Inl e
      | Inr thr \<Rightarrow>
          (case replay thr ts of
             (simulated_profit_total, stopped, wins) \<Rightarrow>
               Inr \<lparr>mae_threshold = thr,
                    percentile = pct,
                    total_profit = simulated_profit_total,
                    delta = simulated_profit_total - calc_baseline_total_profit ts,
                    stopped_count = stopped,
                    win_rate = real wins / real (length ts) * 100\<rparr>))"

text \<open>The loop over \<^verbatim>\<open>threshold_pcts\<close>: an exception in one pass ends the analysis.\<close>

fun simulate_all :: "trade list \<Rightarrow> real list \<Rightarrow> py_error + threshold_result list" where
  "simulate_all ts [] = Inr []"
| "simulate_all ts (pct # pcts) =
     (case simulate_pct ts pct of
        Inl e \<Rightarrow> Inl e
      | Inr r \<Rightarrow>
          (case simulate_all ts pcts of
             Inl e \<Rightarrow> Inl e
           | Inr rs \<Rightarrow> Inr (r # rs)))"

section \<open>Selection of the best result\<close>

text \<open>
  Python's \<^verbatim>\<open>max(iterable, key=...)\<close>: the first item is the candidate, and a later item
  replaces it only when its key is strictly greater.
\<close>

definition max_step :: "('a \<Rightarrow> real) \<Rightarrow> 'a \<Rightarrow> 'a \<Rightarrow> 'a" where
  "max_step key best x = (if key best < key x then x else best)"

fun py_max :: "('a \<Rightarrow> real) \<Rightarrow> 'a list \<Rightarrow> py_error + 'a" where
  "py_max key [] = Inl MaxOfEmpty"
| "py_max key (x # xs) = Inr (foldl (max_step key) x xs)"

section \<open>Improvement over the baseline\<close>

text \<open>float64 division of finite numbers, with its results at a zero divisor.\<close>

definition np_divide :: "real \<Rightarrow> real \<Rightarrow> np_float" where
  "np_divide x y =
     (if y \<noteq> 0 then Finite (x / y)
      else if x = 0 then NaN
      else if 0 < x then PosInf
      else NegInf)"

text \<open>The product of a quotient with a finite number.\<close>

fun np_multiply :: "np_float \<Rightarrow> real \<Rightarrow> np_float" where
  "np_multiply (Finite x) c = Finite (x * c)"
| "np_multiply PosInf c = (if 0 < c then PosInf else if c < 0 then NegInf else NaN)"
| "np_multiply NegInf c = (if 0 < c then NegInf else if c < 0 then PosInf else NaN)"
| "np_multiply NaN c = NaN"

text \<open>\<^verbatim>\<open>best_result['delta']/abs(baseline_total_profit)*100\<close>\<close>

definition calc_improvement_pct :: "real \<Rightarrow> real \<Rightarrow> np_float" where
  "calc_improvement_pct best_delta baseline = np_multiply (np_divide best_delta \<bar>baseline\<bar>) 100"

section \<open>The analysis\<close>

definition analyze_stop_loss :: "dataframe \<Rightarrow> real list \<Rightarrow> py_error + outcome" where
  "analyze_stop_loss df threshold_pcts =
     (if missing_cols df \<noteq> [] then Inl (MissingColumns (missing_cols df) (map fst df))
      else
        let ts = valid_trades df
        in if length ts = 0 then Inr NoValidData
           else
             (case simulate_all ts threshold_pcts of
                Inl e \<Rightarrow> Inl e
              | Inr rs \<Rightarrow>
                  (case py_max total_profit rs of
                     Inl e \<Rightarrow> Inl e
                   | Inr best \<Rightarrow>
                       Inr (Report
                         \<lparr>baseline_total_profit = calc_baseline_total_profit ts,
                          baseline_win_rate = calc_baseline_win_rate ts,
                          baseline_avg_profit = calc_baseline_avg_profit ts,
                          baseline_trade_count = length ts,
                          stop_loss_results = rs,
                          best_result = best,
                          improvement_pct =
                            calc_improvement_pct (delta best) (calc_baseline_total_profit ts)\<rparr>))))"

text \<open>
  \<^verbatim>\<open>main\<close> after the file is loaded: the thresholds are sorted, any exception of the
  analysis is caught and gives exit status 1, a normal return gives 0.
\<close>

definition main :: "dataframe \<Rightarrow> real list \<Rightarrow> int" where
  "main df thresholds =
     (case analyze_stop_loss df (sort thresholds) of
        Inl e \<Rightarrow> 1
      | Inr r \<Rightarrow> 0)"

section \<open>The properties, in the words of the specification\<close>

text \<open>
  The simulated outcome of one trade under a threshold: the stop-loss amount when the
  adverse excursion is strictly below the threshold, the actual profit otherwise.
\<close>

definition stopped_out :: "real \<Rightarrow> trade \<Rightarrow> bool" where
  "stopped_out thr t = (actual_mae t < thr)"

definition simulated_outcome :: "real \<Rightarrow> trade \<Rightarrow> real" where
  "simulated_outcome thr t =
     (if stopped_out thr t then shares t * entry_price t * thr / 100 else actual_profit t)"

definition simulated_win :: "real \<Rightarrow> trade \<Rightarrow> bool" where
  "simulated_win thr t = (0 < simulated_outcome thr t)"

text \<open>The nearest-rank index \<open>max(0, floor(n * p / 100) - 1)\<close>.\<close>

definition nearest_rank_index :: "nat \<Rightarrow> real \<Rightarrow> int" where
  "nearest_rank_index n p = max 0 (\<lfloor>real n * p / 100\<rfloor> - 1)"

text \<open>
  \<open>b\<close> is the first item of \<open>xs\<close> with the greatest key: no item has a greater key and
  every item before \<open>b\<close> has a strictly smaller one.
\<close>

definition first_maximum :: "('a \<Rightarrow> real) \<Rightarrow> 'a list \<Rightarrow> 'a \<Rightarrow> bool" where
  "first_maximum key xs b =
     (\<exists>i \<in> {..<length xs}. xs ! i = b
        \<and> (\<forall>j \<in> {..<length xs}. key (xs ! j) \<le> key b)
        \<and> (\<forall>j \<in> {..<i}. key (xs ! j) < key b))"



section \<open>Example datasets\<close>

text \<open>Three valid trades and one row without an adverse excursion.\<close>

definition scenario_df :: dataframe where
  "scenario_df =
     [(''MAE'', [Some (- 1), Some (- 5), None, Some (- 1 / 2)]),
      (''Shares'', [Some 100, Some 100, Some 7, Some 50]),
      (''Price'', [Some 50, Some 50, Some 3, Some 20]),
      (''Profit'', [Some (- 30), Some (- 250), Some 4, Some 15])]"

definition scenario :: "trade list" where
  "scenario =
     [\<lparr>actual_mae = - 1, shares = 100, entry_price = 50, actual_profit = - 30\<rparr>,
      \<lparr>actual_mae = - 5, shares = 100, entry_price = 50, actual_profit = - 250\<rparr>,
      \<lparr>actual_mae = - 1 / 2, shares = 50, entry_price = 20, actual_profit = 15\<rparr>]"

text \<open>Two trades whose profits cancel.\<close>

definition zero_baseline_df :: dataframe where
  "zero_baseline_df =
     [(''MAE'', [Some (- 1), Some (- 5)]),
      (''Shares'', [Some 1, Some 1]),
      (''Price'', [Some 100, Some 100]),
      (''Profit'', [Some 10, Some (- 10)])]"

text \<open>All four columns, and no row with all four numbers.\<close>

definition no_valid_df :: dataframe where
  "no_valid_df =
     [(''MAE'', [None, Some (- 2)]),
      (''Shares'', [Some 10, None]),
      (''Price'', [Some 5, Some 5]),
      (''Profit'', [Some 1, Some 1])]"

text \<open>
  The report of the analysis on the first dataset for the percentiles 50 and 40, and on
  the second for the percentile 100.
\<close>

definition scenario_report :: report where
  "scenario_report =
     \<lparr>baseline_total_profit = - 265,
      baseline_win_rate = 100 / 3,
      baseline_avg_profit = - 265 / 3,
      baseline_trade_count = 3,
      stop_loss_results =
        [\<lparr>mae_threshold = - 5, percentile = 50, total_profit = - 265, delta = 0,
          stopped_count = 0, win_rate = 100 / 3\<rparr>,
         \<lparr>mae_threshold = - 5, percentile = 40, total_profit = - 265, delta = 0,
          stopped_count = 0, win_rate = 100 / 3\<rparr>],
      best_result =
        \<lparr>mae_threshold = - 5, percentile = 50, total_profit = - 265, delta = 0,
         stopped_count = 0, win_rate = 100 / 3\<rparr>,
      improvement_pct = Finite 0\<rparr>"

definition zero_baseline_report :: report where
  "zero_baseline_report =
     \<lparr>baseline_total_profit = 0,
      baseline_win_rate = 50,
      baseline_avg_profit = 0,
      baseline_trade_count = 2,
      stop_loss_results =
        [\<lparr>mae_threshold = - 1, percentile = 100, total_profit = 9, delta = 9,
          stopped_count = 1, win_rate = 50\<rparr>],
      best_result =
        \<lparr>mae_threshold = - 1, percentile = 100, total_profit = 9, delta = 9,
         stopped_count = 1, win_rate = 50\<rparr>,
      improvement_pct = PosInf\<rparr>"

section \<open>Evaluation on the example datasets\<close>

lemma scenario_not_Nil: "scenario \<noteq> []"
  by (simp add: scenario_def)

lemma length_scenario: "length scenario = 3"
  by (simp add: scenario_def)

lemma sort_scenario: "sort (mae_valid scenario) = [- 5, - 1, - 1 / 2]"
  by (simp add: scenario_def mae_valid_def)

lemma valid_trades_scenario: "valid_trades scenario_df = scenario"
  by (simp add: valid_trades_def scenario_df_def scenario_def column_def List.map_filter_simps)

lemma missing_cols_scenario: "missing_cols scenario_df = []"
  by (simp add: missing_cols_def required_cols_def scenario_df_def)

lemma baseline_scenario:
  "calc_baseline_total_profit scenario = - 265"
  "calc_baseline_win_rate scenario = 100 / 3"
  "calc_baseline_avg_profit scenario = - 265 / 3"
  by (simp_all add: calc_baseline_total_profit_def calc_baseline_win_rate_def
      calc_baseline_avg_profit_def mean_def profit_valid_def scenario_def)

lemma simulate_pct_scenario_50:
  "simulate_pct scenario 50 =
     Inr \<lparr>mae_threshold = - 5, percentile = 50, total_profit = - 265, delta = 0,
          stopped_count = 0, win_rate = 100 / 3\<rparr>"
  by (simp add: simulate_pct_def sort_scenario resolve_mae_threshold_def threshold_idx_def
      py_int_def iloc_def)
    (simp add: scenario_def replay_def calc_baseline_total_profit_def profit_valid_def)

lemma simulate_pct_scenario_40:
  "simulate_pct scenario 40 =
     Inr \<lparr>mae_threshold = - 5, percentile = 40, total_profit = - 265, delta = 0,
          stopped_count = 0, win_rate = 100 / 3\<rparr>"
  by (simp add: simulate_pct_def sort_scenario resolve_mae_threshold_def threshold_idx_def
      py_int_def iloc_def)
    (simp add: scenario_def replay_def calc_baseline_total_profit_def profit_valid_def)

lemma simulate_pct_scenario_100:
  "simulate_pct scenario 100 =
     Inr \<lparr>mae_threshold = - 1 / 2, percentile = 100, total_profit = - 35, delta = 230,
          stopped_count = 2, win_rate = 100 / 3\<rparr>"
  by (simp add: simulate_pct_def sort_scenario resolve_mae_threshold_def threshold_idx_def
      py_int_def iloc_def)
    (simp add: scenario_def replay_def calc_baseline_total_profit_def profit_valid_def)

lemma analyze_scenario:
  "analyze_stop_loss scenario_df [50, 40] = Inr (Report scenario_report)"
  by (simp add: analyze_stop_loss_def missing_cols_scenario valid_trades_scenario
      simulate_pct_scenario_50 simulate_pct_scenario_40 max_step_def baseline_scenario
      length_scenario scenario_not_Nil scenario_report_def calc_improvement_pct_def np_divide_def)

lemma valid_trades_zero_baseline:
  "valid_trades zero_baseline_df =
     [\<lparr>actual_mae = - 1, shares = 1, entry_price = 100, actual_profit = 10\<rparr>,
      \<lparr>actual_mae = - 5, shares = 1, entry_price = 100, actual_profit = - 10\<rparr>]"
  by (simp add: valid_trades_def zero_baseline_df_def column_def List.map_filter_simps)

lemma missing_cols_zero_baseline: "missing_cols zero_baseline_df = []"
  by (simp add: missing_cols_def required_cols_def zero_baseline_df_def)

lemma analyze_zero_baseline:
  "analyze_stop_loss zero_baseline_df [100] = Inr (Report zero_baseline_report)"
  by (simp add: analyze_stop_loss_def missing_cols_zero_baseline valid_trades_zero_baseline
      simulate_pct_def mae_valid_def resolve_mae_threshold_def threshold_idx_def py_int_def
      iloc_def replay_def calc_baseline_total_profit_def calc_baseline_win_rate_def
      calc_baseline_avg_profit_def mean_def profit_valid_def zero_baseline_report_def
      calc_improvement_pct_def np_divide_def)

lemma valid_trades_no_valid: "valid_trades no_valid_df = []"
  by (simp add: valid_trades_def no_valid_df_def column_def List.map_filter_simps)

lemma missing_cols_no_valid: "missing_cols no_valid_df = []"
  by (simp add: missing_cols_def required_cols_def no_valid_df_def)

section \<open>The replay loop\<close>

text \<open>
  The loop from any starting state: the total grows by the simulated outcomes, the two
  counters by the number of stopped and of winning trades.
\<close>

lemma replay_step_acc:
  "foldl (replay_step thr) (a, s, w) ts =
     (a + sum_list (map (simulated_outcome thr) ts),
      s + length (filter (stopped_out thr) ts),
      w + length (filter (simulated_win thr) ts))"
proof (induction ts arbitrary: a s w)
  case Nil
  show ?case by simp
next
  case (Cons t ts)
  show ?case
  proof (cases "actual_mae t < thr")
    case True
    then show ?thesis
      by (simp add: Cons.IH simulated_outcome_def stopped_out_def simulated_win_def Let_def)
  next
    case False
    then show ?thesis
      by (simp add: Cons.IH simulated_outcome_def stopped_out_def simulated_win_def)
  qed
qed

lemma simulate_pct_Inr:
  assumes "simulate_pct ts pct = Inr r"
  shows "resolve_mae_threshold (sort (mae_valid ts)) pct = Inr (mae_threshold r)"
    and "percentile r = pct"
    and "total_profit r = fst (replay (mae_threshold r) ts)"
    and "stopped_count r = fst (snd (replay (mae_threshold r) ts))"
    and "win_rate r = real (snd (snd (replay (mae_threshold r) ts))) / real (length ts) * 100"
    and "delta r = total_profit r - calc_baseline_total_profit ts"
  using assms
  by (auto simp: simulate_pct_def split: sum.splits prod.splits)

text \<open>
  Claim C1. Under a threshold, a trade whose adverse excursion is strictly below the
  threshold contributes \<open>shares * entry_price * threshold / 100\<close> and is counted as stopped,
  every other trade contributes its actual profit; the simulated total is the sum of these
  outcomes, and the win count is the number of trades, stopped or not, whose outcome is
  strictly positive. The same holds for the record of every percentile that resolves.
\<close>

theorem replay_outcomes:
  "replay thr ts =
     (sum_list (map (simulated_outcome thr) ts),
      length (filter (stopped_out thr) ts),
      length (filter (simulated_win thr) ts))
   \<and> (\<forall>r. simulate_pct ts pct = Inr r \<longrightarrow>
         total_profit r = sum_list (map (simulated_outcome (mae_threshold r)) ts)
         \<and> stopped_count r = length (filter (stopped_out (mae_threshold r)) ts)
         \<and> win_rate r = real (length (filter (simulated_win (mae_threshold r)) ts))
                          / real (length ts) * 100)"
proof -
  have eq: "\<And>thr. replay thr ts =
     (sum_list (map (simulated_outcome thr) ts),
      length (filter (stopped_out thr) ts),
      length (filter (simulated_win thr) ts))"
    by (simp add: replay_def replay_step_acc)
  show ?thesis
    using simulate_pct_Inr [of ts pct] by (simp add: eq)
qed

theorem replay_outcomes_witness:
  "replay (- 1 / 2) scenario = (- 35, 2, 1)
   \<and> simulate_pct scenario 100 =
       Inr \<lparr>mae_threshold = - 1 / 2, percentile = 100, total_profit = - 35, delta = 230,
            stopped_count = 2, win_rate = 100 / 3\<rparr>
   \<and> sum_list (map (simulated_outcome (- 1 / 2)) scenario) = - 35
   \<and> length (filter (stopped_out (- 1 / 2)) scenario) = 2
   \<and> length (filter (simulated_win (- 1 / 2)) scenario) = 1"
  using replay_outcomes [of "- 1 / 2" scenario 100] simulate_pct_scenario_100
  by (simp add: scenario_def simulated_outcome_def stopped_out_def simulated_win_def)

text \<open>
  When the threshold is strictly below the adverse excursion of every trade, no trade is
  stopped and the loop adds up the actual profits.
\<close>

lemma replay_none_stopped:
  assumes "\<forall>t \<in> set ts. thr < actual_mae t"
  shows "fst (replay thr ts) = sum_list (map actual_profit ts) \<and> fst (snd (replay thr ts)) = 0"
proof -
  from assms have none: "\<And>t. t \<in> set ts \<Longrightarrow> \<not> stopped_out thr t"
    by (auto simp: stopped_out_def)
  then have "map (simulated_outcome thr) ts = map actual_profit ts"
    by (simp add: simulated_outcome_def)
  then have kept: "sum_list (map (simulated_outcome thr) ts) = sum_list (map actual_profit ts)"
    by (rule arg_cong)
  from none have unstopped: "filter (stopped_out thr) ts = []"
    by (simp add: filter_empty_conv)
  have "replay thr ts =
     (sum_list (map (simulated_outcome thr) ts),
      length (filter (stopped_out thr) ts),
      length (filter (simulated_win thr) ts))"
    by (simp add: replay_def replay_step_acc)
  then have "replay thr ts =
     (sum_list (map actual_profit ts), length ([] :: trade list),
      length (filter (simulated_win thr) ts))"
    by (simp only: kept unstopped)
  then show ?thesis
    by simp
qed

section \<open>The threshold of a percentile\<close>

text \<open>
  Truncation and floor differ only below zero, where the index is 0 either way.
\<close>

lemma threshold_idx_nearest_rank: "threshold_idx n p = nearest_rank_index n p"
proof (cases "0 \<le> real n * (p / 100)")
  case True
  then show ?thesis
    by (simp add: threshold_idx_def nearest_rank_index_def py_int_def)
next
  case False
  then have neg: "real n * p / 100 < 0" by simp
  then have "\<lceil>real n * p / 100\<rceil> \<le> 0" "\<lfloor>real n * p / 100\<rfloor> \<le> 0"
    by (simp_all add: ceiling_le_zero floor_le_zero less_imp_le)
  with False show ?thesis
    by (simp add: threshold_idx_def nearest_rank_index_def py_int_def)
qed

text \<open>What the properties below use of the index.\<close>

lemma threshold_idx_nonneg: "0 \<le> threshold_idx n p"
  by (simp add: threshold_idx_def)

lemma threshold_idx_mono:
  assumes "p1 \<le> p2"
  shows "threshold_idx n p1 \<le> threshold_idx n p2"
proof -
  from assms have "real n * p1 / 100 \<le> real n * p2 / 100"
    by (simp add: mult_left_mono divide_right_mono)
  then have "\<lfloor>real n * p1 / 100\<rfloor> \<le> \<lfloor>real n * p2 / 100\<rfloor>"
    by (rule floor_mono)
  then show ?thesis
    by (simp add: threshold_idx_nearest_rank nearest_rank_index_def)
qed

lemma threshold_idx_less:
  assumes "0 < n" and "p \<le> 100"
  shows "threshold_idx n p < int n"
proof -
  have "real n * p / 100 \<le> real n"
    using assms by (simp add: mult_left_le)
  then have "\<lfloor>real n * p / 100\<rfloor> \<le> \<lfloor>real n\<rfloor>"
    by (rule floor_mono)
  then have "\<lfloor>real n * p / 100\<rfloor> \<le> int n"
    by simp
  with assms(1) show ?thesis
    by (simp add: threshold_idx_nearest_rank nearest_rank_index_def)
qed





lemma iloc_nonneg:
  "0 \<le> i \<Longrightarrow> iloc xs i = (if i < int (length xs) then Inr (xs ! nat i) else Inl IndexError)"
  by (simp add: iloc_def Let_def)

lemma resolve_eq:
  "resolve_mae_threshold xs p =
     (if threshold_idx (length xs) p < int (length xs)
      then Inr (xs ! nat (threshold_idx (length xs) p))
      else Inl IndexError)"
  by (simp add: resolve_mae_threshold_def iloc_nonneg threshold_idx_nonneg)

lemma simulate_pct_found:
  assumes "threshold_idx (length ts) p < int (length ts)"
  shows "\<exists>r. simulate_pct ts p = Inr r
           \<and> mae_threshold r = sort (mae_valid ts) ! nat (threshold_idx (length ts) p)
           \<and> percentile r = p"
proof -
  have "length (sort (mae_valid ts)) = length ts"
    by (simp add: mae_valid_def)
  with assms have "resolve_mae_threshold (sort (mae_valid ts)) p =
      Inr (sort (mae_valid ts) ! nat (threshold_idx (length ts) p))"
    by (simp add: resolve_eq)
  then show ?thesis
    by (simp add: simulate_pct_def split: prod.splits)
qed


lemma simulate_pct_in_range:
  assumes "ts \<noteq> []" and "p \<le> 100"
  shows "\<exists>r. simulate_pct ts p = Inr r"
proof -
  from assms(1) have "0 < length ts" by simp
  then have "threshold_idx (length ts) p < int (length ts)"
    using assms(2) by (rule threshold_idx_less)
  then show ?thesis
    using simulate_pct_found by blast
qed

text \<open>The ends of a sorted list are the least and the greatest of its elements.\<close>

lemma sort_nth_le:
  assumes "i \<le> j" and "j < length ms"
  shows "sort ms ! i \<le> sort ms ! (j :: nat)"
  using assms by (simp add: sorted_nth_mono)



text \<open>
  Claim C10. For a non-empty set of \<open>n\<close> valid trades and a percentile in \<open>(0, 100]\<close> the
  index lies in \<open>[0, n - 1]\<close>, and the lookup in the sorted adverse excursions succeeds.
\<close>

theorem threshold_idx_in_bounds:
  assumes "ts \<noteq> []" and "0 < p" and "p \<le> 100"
  shows "0 \<le> threshold_idx (length ts) p
         \<and> threshold_idx (length ts) p \<le> int (length ts) - 1
         \<and> (\<exists>v. resolve_mae_threshold (sort (mae_valid ts)) p = Inr v)
         \<and> (\<exists>r. simulate_pct ts p = Inr r)"
proof -
  from assms(1) have n: "0 < length ts" by simp
  have len: "length (mae_valid ts) = length ts"
    by (simp add: mae_valid_def)
  have lt: "threshold_idx (length ts) p < int (length ts)"
    using n assms(3) by (rule threshold_idx_less)
  then have res: "\<exists>v. resolve_mae_threshold (sort (mae_valid ts)) p = Inr v"
    by (simp add: resolve_eq len)
  from lt have "\<exists>r. simulate_pct ts p = Inr r"
    using simulate_pct_found by blast
  with res lt threshold_idx_nonneg [of "length ts" p] show ?thesis
    by simp
qed

theorem threshold_idx_in_bounds_witness:
  "scenario \<noteq> [] \<and> (0::real) < 100 \<and> (100::real) \<le> 100
   \<and> threshold_idx (length scenario) 100 = 2
   \<and> resolve_mae_threshold (sort (mae_valid scenario)) 100 = Inr (- 1 / 2)"
  using threshold_idx_in_bounds [OF scenario_not_Nil, of 100]
  by (simp add: sort_scenario length_scenario scenario_not_Nil resolve_mae_threshold_def
      threshold_idx_def py_int_def iloc_def)

text \<open>
  Claim C5. For a non-empty set of valid trades and percentiles \<open>p1 < p2\<close> in
  \<open>(0, 100]\<close>, the pass of the analysis for each percentile sorts the adverse excursions
  and resolves a threshold, and the threshold of \<open>p1\<close> is at most the one of \<open>p2\<close>; so
  are the thresholds of the two results of a run for \<open>[p1, p2]\<close>.
\<close>

theorem threshold_monotone:
  assumes "ts \<noteq> []" and "0 < p1" and "p1 < p2" and "p2 \<le> 100"
  shows "(\<exists>r1 r2. simulate_pct ts p1 = Inr r1 \<and> simulate_pct ts p2 = Inr r2
            \<and> mae_threshold r1 \<le> mae_threshold r2)
         \<and> (missing_cols df = [] \<and> valid_trades df = ts \<longrightarrow>
              (\<exists>rep r1 r2. analyze_stop_loss df [p1, p2] = Inr (Report rep)
                 \<and> stop_loss_results rep = [r1, r2]
                 \<and> percentile r1 = p1 \<and> percentile r2 = p2
                 \<and> mae_threshold r1 \<le> mae_threshold r2))"
proof -
  let ?n = "length ts"
  let ?i1 = "threshold_idx ?n p1" and ?i2 = "threshold_idx ?n p2"
  from assms(1) have n: "0 < ?n" by simp
  from assms have "p1 \<le> 100" by simp
  with n have lt1: "?i1 < int ?n" by (rule threshold_idx_less)
  from n assms(4) have lt2: "?i2 < int ?n" by (rule threshold_idx_less)
  from lt1 obtain r1 where r1: "simulate_pct ts p1 = Inr r1"
    and t1: "mae_threshold r1 = sort (mae_valid ts) ! nat ?i1" and q1: "percentile r1 = p1"
    using simulate_pct_found by blast
  from lt2 obtain r2 where r2: "simulate_pct ts p2 = Inr r2"
    and t2: "mae_threshold r2 = sort (mae_valid ts) ! nat ?i2" and q2: "percentile r2 = p2"
    using simulate_pct_found by blast
  from assms(3) have "?i1 \<le> ?i2"
    by (simp add: threshold_idx_mono)
  then have "nat ?i1 \<le> nat ?i2" by simp
  moreover from lt2 have "nat ?i2 < length (mae_valid ts)"
    using threshold_idx_nonneg [of ?n p2] by (simp add: mae_valid_def)
  ultimately have "sort (mae_valid ts) ! nat ?i1 \<le> sort (mae_valid ts) ! nat ?i2"
    by (rule sort_nth_le)
  with t1 t2 have le: "mae_threshold r1 \<le> mae_threshold r2" by simp
  have run: "\<exists>rep r1 r2. analyze_stop_loss df [p1, p2] = Inr (Report rep)
                 \<and> stop_loss_results rep = [r1, r2]
                 \<and> percentile r1 = p1 \<and> percentile r2 = p2
                 \<and> mae_threshold r1 \<le> mae_threshold r2"
    if "missing_cols df = []" and "valid_trades df = ts"
    using that assms(1) r1 r2 q1 q2 le by (simp add: analyze_stop_loss_def)
  from r1 r2 le run show ?thesis by blast
qed

theorem threshold_monotone_witness:
  "scenario \<noteq> [] \<and> (0::real) < 50 \<and> (50::real) < 100 \<and> (100::real) \<le> 100
   \<and> missing_cols scenario_df = [] \<and> valid_trades scenario_df = scenario
   \<and> simulate_pct scenario 50 =
       Inr \<lparr>mae_threshold = - 5, percentile = 50, total_profit = - 265, delta = 0,
            stopped_count = 0, win_rate = 100 / 3\<rparr>
   \<and> simulate_pct scenario 100 =
       Inr \<lparr>mae_threshold = - 1 / 2, percentile = 100, total_profit = - 35, delta = 230,
            stopped_count = 2, win_rate = 100 / 3\<rparr>
   \<and> (- 5 :: real) \<le> - 1 / 2
   \<and> (\<exists>rep r1 r2. analyze_stop_loss scenario_df [50, 100] = Inr (Report rep)
         \<and> stop_loss_results rep = [r1, r2]
         \<and> percentile r1 = 50 \<and> percentile r2 = 100
         \<and> mae_threshold r1 \<le> mae_threshold r2)"
  using threshold_monotone [OF scenario_not_Nil, of 50 100 scenario_df]
  by (simp add: scenario_not_Nil missing_cols_scenario valid_trades_scenario
      simulate_pct_scenario_50 simulate_pct_scenario_100)




section \<open>The best result\<close>

lemma first_maximum_snoc:
  assumes "first_maximum key ys r"
  shows "first_maximum key (ys @ [x]) (max_step key r x)"
proof -
  from assms obtain i where i: "i < length ys" and r: "ys ! i = r"
    and ub: "\<And>j. j < length ys \<Longrightarrow> key (ys ! j) \<le> key r"
    and strict: "\<And>j. j < i \<Longrightarrow> key (ys ! j) < key r"
    unfolding first_maximum_def by auto
  show ?thesis
  proof (cases "key r < key x")
    case True
    have all: "key ((ys @ [x]) ! j) \<le> key x" if "j < length (ys @ [x])" for j
    proof (cases "j < length ys")
      case True
      with ub [of j] \<open>key r < key x\<close> show ?thesis
        by (simp add: nth_append)
    next
      case False
      with that have "j = length ys" by simp
      then show ?thesis by simp
    qed
    have before: "key ((ys @ [x]) ! j) < key x" if "j < length ys" for j
      using that ub [of j] True by (simp add: nth_append)
    have "length ys \<in> {..<length (ys @ [x])}" by simp
    moreover have "(ys @ [x]) ! length ys = max_step key r x"
      using True by (simp add: max_step_def)
    moreover have "\<forall>j \<in> {..<length (ys @ [x])}. key ((ys @ [x]) ! j) \<le> key (max_step key r x)"
      using True all by (simp add: max_step_def)
    moreover have "\<forall>j \<in> {..<length ys}. key ((ys @ [x]) ! j) < key (max_step key r x)"
      using True before by (simp add: max_step_def)
    ultimately show ?thesis
      unfolding first_maximum_def by blast
  next
    case False
    have all: "key ((ys @ [x]) ! j) \<le> key r" if "j < length (ys @ [x])" for j
    proof (cases "j < length ys")
      case True
      with ub [of j] show ?thesis
        by (simp add: nth_append)
    next
      case no: False
      with that have "j = length ys" by simp
      with False show ?thesis by simp
    qed
    have before: "key ((ys @ [x]) ! j) < key r" if "j < i" for j
      using that strict [of j] i by (simp add: nth_append)
    from i have "i \<in> {..<length (ys @ [x])}" by simp
    moreover have "(ys @ [x]) ! i = max_step key r x"
      using False i r by (simp add: max_step_def nth_append)
    moreover have "\<forall>j \<in> {..<length (ys @ [x])}. key ((ys @ [x]) ! j) \<le> key (max_step key r x)"
      using False all by (simp add: max_step_def)
    moreover have "\<forall>j \<in> {..<i}. key ((ys @ [x]) ! j) < key (max_step key r x)"
      using False before by (simp add: max_step_def)
    ultimately show ?thesis
      unfolding first_maximum_def by blast
  qed
qed

lemma foldl_max_step_first_maximum:
  "first_maximum key (b # xs) (foldl (max_step key) b xs)"
proof (induction xs rule: rev_induct)
  case Nil
  show ?case by (simp add: first_maximum_def)
next
  case (snoc x xs)
  from first_maximum_snoc [OF snoc.IH, of x] show ?case by simp
qed

lemma py_max_first_maximum:
  "xs \<noteq> [] \<Longrightarrow> \<exists>b. py_max key xs = Inr b \<and> first_maximum key xs b"
  by (cases xs) (simp_all add: foldl_max_step_first_maximum)

lemma py_max_Inr:
  assumes "py_max key xs = Inr b"
  shows "first_maximum key xs b"
proof (cases xs)
  case Nil
  with assms show ?thesis by simp
next
  case (Cons y ys)
  with assms foldl_max_step_first_maximum [of key y ys] show ?thesis by auto
qed

lemma simulate_all_percentiles:
  "simulate_all ts pcts = Inr rs \<Longrightarrow> map percentile rs = pcts"
proof (induction pcts arbitrary: rs)
  case Nil
  then show ?case by simp
next
  case (Cons p ps)
  then show ?case
    by (auto split: sum.splits dest: simulate_pct_Inr(2))
qed

lemma simulate_all_in_range:
  assumes "ts \<noteq> []" and "\<forall>p \<in> set pcts. p \<le> 100"
  shows "\<exists>rs. simulate_all ts pcts = Inr rs \<and> length rs = length pcts"
  using assms(2)
proof (induction pcts)
  case Nil
  show ?case by simp
next
  case (Cons p ps)
  from Cons.prems have "p \<le> 100" by simp
  with assms(1) obtain r where r: "simulate_pct ts p = Inr r"
    using simulate_pct_in_range by blast
  from Cons obtain rs where rs: "simulate_all ts ps = Inr rs" "length rs = length ps"
    by auto
  from r rs show ?case by simp
qed

lemma analyze_Report:
  assumes "analyze_stop_loss df pcts = Inr (Report rep)"
  shows "missing_cols df = []"
    and "valid_trades df \<noteq> []"
    and "simulate_all (valid_trades df) pcts = Inr (stop_loss_results rep)"
    and "py_max total_profit (stop_loss_results rep) = Inr (best_result rep)"
    and "baseline_total_profit rep = calc_baseline_total_profit (valid_trades df)"
    and "baseline_win_rate rep = calc_baseline_win_rate (valid_trades df)"
    and "baseline_trade_count rep = length (valid_trades df)"
    and "improvement_pct rep =
           calc_improvement_pct (delta (best_result rep)) (calc_baseline_total_profit (valid_trades df))"
  using assms
  by (auto simp: analyze_stop_loss_def Let_def split: if_splits sum.splits)

lemma analyze_in_range:
  assumes "missing_cols df = []" and "valid_trades df \<noteq> []" and "pcts \<noteq> []"
    and "\<forall>p \<in> set pcts. p \<le> 100"
  shows "\<exists>rep. analyze_stop_loss df pcts = Inr (Report rep)"
proof -
  from assms(2,4) obtain rs where rs: "simulate_all (valid_trades df) pcts = Inr rs"
    and len: "length rs = length pcts"
    using simulate_all_in_range by blast
  from len assms(3) have "rs \<noteq> []" by auto
  then obtain b where "py_max total_profit rs = Inr b"
    using py_max_first_maximum by blast
  with rs assms(1,2) show ?thesis
    by (simp add: analyze_stop_loss_def Let_def)
qed

text \<open>
  Claim C3. On a non-empty list of results the selection returns a result whose total
  profit is at least that of every result of the list, and the first such result in list
  order; in a run the list has one result per percentile, in the order the percentiles
  were passed to the analysis.
\<close>

theorem best_result_first_maximum:
  "(rs \<noteq> [] \<longrightarrow> (\<exists>b. py_max total_profit rs = Inr b \<and> first_maximum total_profit rs b))
   \<and> (analyze_stop_loss df pcts = Inr (Report rep) \<longrightarrow>
        map percentile (stop_loss_results rep) = pcts
        \<and> first_maximum total_profit (stop_loss_results rep) (best_result rep))"
  using py_max_first_maximum [of rs total_profit] analyze_Report(3,4) [of df pcts rep]
    simulate_all_percentiles [of "valid_trades df" pcts "stop_loss_results rep"]
    py_max_Inr [of total_profit "stop_loss_results rep" "best_result rep"]
  by blast

theorem best_result_first_maximum_witness:
  "stop_loss_results scenario_report \<noteq> []
   \<and> analyze_stop_loss scenario_df [50, 40] = Inr (Report scenario_report)
   \<and> map percentile (stop_loss_results scenario_report) = [50, 40]
   \<and> percentile (best_result scenario_report) = 50
   \<and> py_max total_profit (stop_loss_results scenario_report) = Inr (best_result scenario_report)
   \<and> first_maximum total_profit (stop_loss_results scenario_report) (best_result scenario_report)"
  using best_result_first_maximum
    [of "stop_loss_results scenario_report" scenario_df "[50, 40]" scenario_report]
    analyze_scenario
  by (simp add: scenario_report_def max_step_def)

section \<open>The baseline\<close>






section \<open>A baseline of zero\<close>

lemma calc_improvement_pct_zero:
  "calc_improvement_pct d 0 = (if d = 0 then NaN else if 0 < d then PosInf else NegInf)"
  by (simp add: calc_improvement_pct_def np_divide_def)

text \<open>
  Claim C7 says that with a baseline total of exactly zero the percentage improvement is
  reported as undefined (NaN). The program divides all the same: with a baseline of zero
  and a best result that gains 9, the percentage is positive infinity.
\<close>

theorem zero_baseline_counterexample:
  "analyze_stop_loss zero_baseline_df [100] = Inr (Report zero_baseline_report)
   \<and> baseline_total_profit zero_baseline_report = 0
   \<and> improvement_pct zero_baseline_report = PosInf
   \<and> improvement_pct zero_baseline_report \<noteq> NaN"
  by (simp add: analyze_zero_baseline) (simp add: zero_baseline_report_def)

text \<open>
  Claim C7, as the program behaves: when the baseline total is exactly zero (and the columns
  are present, some trade is valid and the percentiles, at least one, are at most 100) the
  analysis returns normally, and the percentage improvement is the quotient of the best
  delta by zero: NaN when the delta is zero, positive infinity when it is positive, negative
  infinity when it is negative.
\<close>

theorem zero_baseline_improvement:
  assumes "missing_cols df = []" and "valid_trades df \<noteq> []" and "pcts \<noteq> []"
    and "\<forall>p \<in> set pcts. p \<le> 100"
    and "calc_baseline_total_profit (valid_trades df) = 0"
  shows "\<exists>rep. analyze_stop_loss df pcts = Inr (Report rep)
           \<and> baseline_total_profit rep = 0
           \<and> improvement_pct rep =
               (if delta (best_result rep) = 0 then NaN
                else if 0 < delta (best_result rep) then PosInf
                else NegInf)"
proof -
  from assms(1-4) obtain rep where rep: "analyze_stop_loss df pcts = Inr (Report rep)"
    using analyze_in_range by blast
  from analyze_Report(5,8) [OF rep] assms(5) have "baseline_total_profit rep = 0"
    and "improvement_pct rep = calc_improvement_pct (delta (best_result rep)) 0"
    by simp_all
  with rep show ?thesis
    by (auto simp: calc_improvement_pct_zero)
qed

theorem zero_baseline_improvement_witness:
  "missing_cols zero_baseline_df = [] \<and> valid_trades zero_baseline_df \<noteq> []
   \<and> [100 :: real] \<noteq> [] \<and> list_all (\<lambda>p. p \<le> 100) [100 :: real]
   \<and> calc_baseline_total_profit (valid_trades zero_baseline_df) = 0
   \<and> analyze_stop_loss zero_baseline_df [100] = Inr (Report zero_baseline_report)
   \<and> delta (best_result zero_baseline_report) = 9
   \<and> improvement_pct zero_baseline_report = PosInf"
proof -
  have h: "calc_baseline_total_profit (valid_trades zero_baseline_df) = 0"
    by (simp add: valid_trades_zero_baseline calc_baseline_total_profit_def profit_valid_def)
  have v: "valid_trades zero_baseline_df \<noteq> []"
    by (simp add: valid_trades_zero_baseline)
  have p: "\<forall>p \<in> set [100 :: real]. p \<le> 100" by simp
  from zero_baseline_improvement [OF missing_cols_zero_baseline v _ p h] analyze_zero_baseline
  show ?thesis
    by (simp add: missing_cols_zero_baseline v h) (simp add: zero_baseline_report_def)
qed

section \<open>No valid row\<close>

text \<open>
  Claim C8 says that a dataset without a valid row makes the analysis fail with an error
  that reaches the caller. The program prints a message and returns: the analysis ends
  normally and the exit status is 0.
\<close>

theorem no_valid_data_counterexample:
  "analyze_stop_loss no_valid_df [50] = Inr NoValidData \<and> main no_valid_df [50] = 0"
  by (simp add: main_def analyze_stop_loss_def missing_cols_no_valid valid_trades_no_valid)

text \<open>
  Claim C8, as the program behaves: when the four columns are present and no row has all
  four numbers, the analysis returns normally after its message, without a baseline or a
  threshold, and the exit status of the program is 0.
\<close>

theorem no_valid_data_returns:
  assumes "missing_cols df = []" and "valid_trades df = []"
  shows "analyze_stop_loss df pcts = Inr NoValidData \<and> main df pcts = 0"
  using assms by (simp add: main_def analyze_stop_loss_def)

theorem no_valid_data_returns_witness:
  "missing_cols no_valid_df = [] \<and> valid_trades no_valid_df = []
   \<and> analyze_stop_loss no_valid_df [50, 95] = Inr NoValidData
   \<and> main no_valid_df [50, 95] = 0"
  using no_valid_data_returns [OF missing_cols_no_valid valid_trades_no_valid, of "[50, 95]"]
  by (simp add: missing_cols_no_valid valid_trades_no_valid)

end
